theory Spec2Isabelle
  imports Complex_Main
begin

section \<open>Values and effects shared by both modules\<close>

text \<open>
  A JSON document as Python's \<^verbatim>\<open>json\<close> module presents it: \<^verbatim>\<open>null\<close> is \<^verbatim>\<open>None\<close>,
  an object is a \<^verbatim>\<open>dict\<close> (an association list whose first binding of a key is the
  dict's value for it), a number is an \<^verbatim>\<open>int\<close> or a finite \<^verbatim>\<open>float\<close>. Numbers are
  rationals here: the gps module only passes them through, and the weather module's
  arithmetic on them is modelled exactly.
\<close>

datatype json =
  JNull
| JBool bool
| JNum rat
| JStr string
| JArr "json list"
| JObj "(string \<times> json) list"

text \<open>The exceptions the two modules can meet; all of them are subclasses of \<^verbatim>\<open>Exception\<close>.\<close>

datatype exn = TypeError | ValueError | AttributeError | JSONDecodeError | OSError

text \<open>\<^verbatim>\<open>d.get(k)\<close> on a dict: the value, or \<^verbatim>\<open>None\<close> for a missing key.\<close>

definition dict_get :: "(string \<times> json) list \<Rightarrow> string \<Rightarrow> json" where
  "dict_get kv k = (case map_of kv k of None \<Rightarrow> JNull | Some v \<Rightarrow> v)"

text \<open>
  \<^verbatim>\<open>x.get(k)\<close> on any decoded JSON value: only a dict has the method, every other
  value raises \<^verbatim>\<open>AttributeError\<close>.
\<close>

definition py_get :: "json \<Rightarrow> string \<Rightarrow> exn + json" where
  "py_get x k = (case x of JObj kv \<Rightarrow> Inr (dict_get kv k) | _ \<Rightarrow> Inl AttributeError)"

section \<open>gps\_server/listener.py\<close>

subsection \<open>The world the listener runs in\<close>

text \<open>
  What sits at \<^verbatim>\<open>TEMP_FILE_PATH\<close>: a regular file with its text, or something that
  \<^verbatim>\<open>os.path.exists\<close> reports but \<^verbatim>\<open>open\<close> and \<^verbatim>\<open>os.remove\<close> refuse (a directory).
\<close>

datatype node = File string | Dir

text \<open>
  A response as the handler sends it: \<^verbatim>\<open>send_response(code)\<close>, the headers the handler
  adds itself, and the body written to \<^verbatim>\<open>wfile\<close>; or the error page that the base class
  builds and sends in \<^verbatim>\<open>send_error(code, message)\<close>.
\<close>

datatype response =
  Response nat "(string \<times> string) list" string
| ErrorPage nat

fun status :: "response \<Rightarrow> nat" where
  "status (Response c hs b) = c"
| "status (ErrorPage c) = c"

text \<open>The observable actions, logged in the order in which they happen.\<close>

datatype action =
  Wrote string
| Removed
| ShutdownCall
| Sent response

text \<open>
  The server object keeps two private fields of \<^verbatim>\<open>socketserver.BaseServer\<close>, through
  which \<^verbatim>\<open>serve_forever\<close> and \<^verbatim>\<open>shutdown\<close> talk: the flag \<^verbatim>\<open>__shutdown_request\<close> and
  the event \<^verbatim>\<open>__is_shut_down\<close>. The state holds what sits at the Handoff Record's path,
  whether the fixed port can be bound, whether the listening socket is open, the server
  object, and the log.
\<close>

record base_server =
  shutdown_request :: bool
  is_shut_down :: bool

record world =
  tmp_file :: "node option"
  port_free :: bool
  socket_bound :: bool
  httpd :: base_server
  trace :: "action list"

text \<open>
  How a call ends: it returns a value, raises, or never returns (\<open>Blocked\<close>, with the
  state in which it hangs).
\<close>

datatype 'a outcome =
  Returned 'a world
| Raised exn world
| Blocked world


text \<open>A parsed HTTP request: method, path, the Content-Length header, the body bytes.\<close>

record request =
  command :: string
  path :: string
  content_length :: "string option"
  rfile :: string

text \<open>How a call on the server object ends: it returns, or it never does.\<close>

datatype 'a call = Done 'a | Hangs 'a

text \<open>
  The parts of the Python runtime and standard library that the module calls, taken as
  parameters: \<^verbatim>\<open>int(s)\<close> on a header (\<open>None\<close> when it raises \<^verbatim>\<open>ValueError\<close>);
  \<^verbatim>\<open>json.loads\<close> of the decoded text (\<open>None\<close> when decoding or parsing raises);
  \<^verbatim>\<open>json.dumps\<close>; \<^verbatim>\<open>shutdown()\<close> of the server object, which works on that object's
  two fields; the \<^verbatim>\<open>do_HEAD\<close> that the handler inherits from
  \<^verbatim>\<open>SimpleHTTPRequestHandler\<close>; and the text of the constant \<^verbatim>\<open>HTML_PAGE\<close>.
\<close>

record stdlib =
  int_of_str :: "string \<Rightarrow> int option"
  json_loads :: "string \<Rightarrow> json option"
  json_dumps :: "json \<Rightarrow> string"
  shutdown :: "base_server \<Rightarrow> base_server call"
  inherited_do_HEAD :: "request \<Rightarrow> response"
  HTML_PAGE :: string

text \<open>
  \<^verbatim>\<open>socketserver.BaseServer.shutdown\<close> as CPython defines it:
  \<^verbatim>\<open>self.__shutdown_request = True; self.__is_shut_down.wait()\<close>. The program has one
  thread, so nothing can set the event while \<^verbatim>\<open>wait\<close> runs: the call returns only if
  the event is set already, and hangs otherwise.
\<close>

definition BaseServer_shutdown :: "base_server \<Rightarrow> base_server call" where
  "BaseServer_shutdown h =
     (let h' = h\<lparr>shutdown_request := True\<rparr>
      in if is_shut_down h' then Done h' else Hangs h')"

text \<open>The library with CPython's \<^verbatim>\<open>shutdown\<close>: what the module runs on.\<close>

definition cpython :: "stdlib \<Rightarrow> stdlib" where
  "cpython L = L\<lparr>shutdown := BaseServer_shutdown\<rparr>"

text \<open>
  A stop signal that only raises the flag and returns at once, the behaviour the
  source's comments count on; used to tell the design of the handler from the effect
  of the blocking call.
\<close>

definition flag_only_shutdown :: "base_server \<Rightarrow> base_server call" where
  "flag_only_shutdown h = Done (h\<lparr>shutdown_request := True\<rparr>)"

subsection \<open>GPSLocationHandler\<close>

definition send :: "response \<Rightarrow> world \<Rightarrow> world" where
  "send r w = w\<lparr>trace := trace w @ [Sent r]\<rparr>"

text \<open>\<^verbatim>\<open>do_GET\<close>: 200, the content type, the page; the path is not looked at.\<close>

definition do_GET :: "stdlib \<Rightarrow> request \<Rightarrow> world \<Rightarrow> unit outcome" where
  "do_GET L rq w =
     Returned () (send (Response 200 [(''Content-type'', ''text/html'')] (HTML_PAGE L)) w)"

text \<open>
  \<^verbatim>\<open>self.rfile.read(n)\<close> on the buffered reader of the connection, for a client that
  closes its side after the body: \<open>n\<close> bytes at most, everything for \<open>-1\<close>, and
  \<^verbatim>\<open>ValueError\<close> below \<open>-1\<close>.
\<close>

definition rfile_read :: "int \<Rightarrow> string \<Rightarrow> exn + string" where
  "rfile_read n bs =
     (if 0 \<le> n then Inr (take (nat n) bs)
      else if n = - 1 then Inr bs
      else Inl ValueError)"

text \<open>
  Lines 86 to 91 of \<^verbatim>\<open>do_POST\<close>: the header (a missing one is \<^verbatim>\<open>None\<close>, and
  \<^verbatim>\<open>int(None)\<close> raises \<^verbatim>\<open>TypeError\<close>), the body, the JSON document, the two fields.
\<close>

definition read_fields :: "stdlib \<Rightarrow> request \<Rightarrow> exn + (json \<times> json)" where
  "read_fields L rq =
     (case content_length rq of
        None \<Rightarrow> Inl TypeError
      | Some h \<Rightarrow>
          (case int_of_str L h of
             None \<Rightarrow> Inl ValueError
           | Some n \<Rightarrow>
               (case rfile_read n (rfile rq) of
                  Inl e \<Rightarrow> Inl e
                | Inr post_data \<Rightarrow>
                    (case json_loads L post_data of
                       None \<Rightarrow> Inl JSONDecodeError
                     | Some data \<Rightarrow>
                         (case py_get data ''latitude'' of
                            Inl e \<Rightarrow> Inl e
                          | Inr latitude \<Rightarrow>
                              (case py_get data ''longitude'' of
                                 Inl e \<Rightarrow> Inl e
                               | Inr longitude \<Rightarrow> Inr (latitude, longitude)))))))"

text \<open>\<^verbatim>\<open>with open(TEMP_FILE_PATH, 'w') as f: json.dump(coords, f)\<close>.\<close>

definition write_temp :: "string \<Rightarrow> world \<Rightarrow> exn + world" where
  "write_temp c w =
     (case tmp_file w of
        Some Dir \<Rightarrow> Inl OSError
      | _ \<Rightarrow> Inr (w\<lparr>tmp_file := Some (File c), trace := trace w @ [Wrote c]\<rparr>))"

definition coords_json :: "json \<Rightarrow> json \<Rightarrow> json" where
  "coords_json latitude longitude = JObj [(''latitude'', latitude), (''longitude'', longitude)]"

definition success_response :: "stdlib \<Rightarrow> response" where
  "success_response L =
     Response 200 [(''Content-type'', ''application/json'')]
       (json_dumps L (JObj [(''status'', JStr ''success'')]))"

text \<open>
  \<^verbatim>\<open>self.server.shutdown()\<close> inside the handler: the call is logged, then made on the
  server object; the handler goes on only if the call returns.
\<close>

definition call_shutdown :: "stdlib \<Rightarrow> world \<Rightarrow> unit outcome" where
  "call_shutdown L w =
     (let w' = w\<lparr>trace := trace w @ [ShutdownCall]\<rparr>
      in case shutdown L (httpd w') of
           Done h \<Rightarrow> Returned () (w'\<lparr>httpd := h\<rparr>)
         | Hangs h \<Rightarrow> Blocked (w'\<lparr>httpd := h\<rparr>))"

text \<open>
  \<^verbatim>\<open>do_POST\<close>. On the callback path: an exception anywhere in the \<^verbatim>\<open>try\<close> block gives
  500 with no body; two fields that are not \<^verbatim>\<open>None\<close> give (1) the write, (2)
  \<^verbatim>\<open>self.server.shutdown()\<close>, (3) the 200 response, in the source's order; a field that
  is \<^verbatim>\<open>None\<close> leaves the \<^verbatim>\<open>if\<close> without a \<^verbatim>\<open>return\<close> and reaches the 404 at the end of
  the method, as every other path does.
\<close>

definition do_POST :: "stdlib \<Rightarrow> request \<Rightarrow> world \<Rightarrow> unit outcome" where
  "do_POST L rq w =
     (if path rq = ''/location_data'' then
        (case read_fields L rq of
           Inl e \<Rightarrow> Returned () (send (Response 500 [] []) w)
         | Inr (latitude, longitude) \<Rightarrow>
             if latitude \<noteq> JNull \<and> longitude \<noteq> JNull then
               (case write_temp (json_dumps L (coords_json latitude longitude)) w of
                  Inl e \<Rightarrow> Returned () (send (Response 500 [] []) w)
                | Inr w1 \<Rightarrow>
                    (case call_shutdown L w1 of
                       Returned u w2 \<Rightarrow> Returned () (send (success_response L) w2)
                     | Raised e w2 \<Rightarrow> Returned () (send (Response 500 [] []) w2)
                     | Blocked w2 \<Rightarrow> Blocked w2))
             else Returned () (send (Response 404 [] []) w))
      else Returned () (send (Response 404 [] []) w))"

text \<open>
  \<^verbatim>\<open>BaseHTTPRequestHandler.handle_one_request\<close>: the method \<^verbatim>\<open>do_<command>\<close> is looked
  up on the handler, and a command without one is answered by
  \<^verbatim>\<open>send_error(501, "Unsupported method (...)")\<close>. The handler class defines
  \<^verbatim>\<open>do_GET\<close> and \<^verbatim>\<open>do_POST\<close> and inherits \<^verbatim>\<open>do_HEAD\<close>; it has no other \<^verbatim>\<open>do_\<close> method.
\<close>

definition handle_one_request :: "stdlib \<Rightarrow> request \<Rightarrow> world \<Rightarrow> unit outcome" where
  "handle_one_request L rq w =
     (if command rq = ''GET'' then do_GET L rq w
      else if command rq = ''POST'' then do_POST L rq w
      else if command rq = ''HEAD'' then Returned () (send (inherited_do_HEAD L rq) w)
      else Returned () (send (ErrorPage 501) w))"

subsection \<open>The serve loop and get\_gps\_location\<close>

text \<open>
  \<^verbatim>\<open>serve_forever\<close> over the requests that will arrive: the event is cleared, the loop
  runs while \<^verbatim>\<open>__shutdown_request\<close> is false and handles one request per round in the
  calling thread, and the \<^verbatim>\<open>finally\<close> clause resets the flag and sets the event. With
  the flag still false and no request left, the loop waits for a connection for ever.
  What a handler raises is caught by the server (\<^verbatim>\<open>handle_error\<close>) and the loop goes on.
\<close>

definition loop_exit :: "world \<Rightarrow> world" where
  "loop_exit w = w\<lparr>httpd := \<lparr>shutdown_request = False, is_shut_down = True\<rparr>\<rparr>"

fun serve_loop :: "stdlib \<Rightarrow> request list \<Rightarrow> world \<Rightarrow> unit outcome" where
  "serve_loop L [] w =
     (if shutdown_request (httpd w) then Returned () (loop_exit w) else Blocked w)"
| "serve_loop L (rq # rqs) w =
     (if shutdown_request (httpd w) then Returned () (loop_exit w)
      else (case handle_one_request L rq w of
              Returned u w' \<Rightarrow> serve_loop L rqs w'
            | Raised e w' \<Rightarrow> serve_loop L rqs w'
            | Blocked w' \<Rightarrow> Blocked w'))"

definition serve_forever :: "stdlib \<Rightarrow> request list \<Rightarrow> world \<Rightarrow> unit outcome" where
  "serve_forever L rqs w = serve_loop L rqs (w\<lparr>httpd := (httpd w)\<lparr>is_shut_down := False\<rparr>\<rparr>)"

text \<open>
  The constructor of \<^verbatim>\<open>ShutdownableTCPServer\<close>: \<^verbatim>\<open>BaseServer.__init__\<close> creates the
  event unset and the flag false, \<^verbatim>\<open>TCPServer.__init__\<close> binds and listens, and a failed
  bind raises \<^verbatim>\<open>OSError\<close> with the socket closed again.
\<close>

definition new_server :: "world \<Rightarrow> exn + world" where
  "new_server w =
     (if port_free w
      then Inr (w\<lparr>socket_bound := True,
                  httpd := \<lparr>shutdown_request = False, is_shut_down = False\<rparr>\<rparr>)
      else Inl OSError)"

text \<open>\<^verbatim>\<open>os.remove(TEMP_FILE_PATH)\<close>.\<close>

definition remove_temp :: "world \<Rightarrow> exn + world" where
  "remove_temp w =
     (case tmp_file w of
        Some (File c) \<Rightarrow> Inr (w\<lparr>tmp_file := None, trace := trace w @ [Removed]\<rparr>)
      | _ \<Rightarrow> Inl OSError)"

text \<open>
  Lines 142 to 153, the read after the serve loop has returned: nothing at the path
  leaves the \<^verbatim>\<open>if\<close>; otherwise open, \<^verbatim>\<open>json.load\<close>, the two \<^verbatim>\<open>get\<close> calls, \<^verbatim>\<open>os.remove\<close>,
  and the pair if both fields are not \<^verbatim>\<open>None\<close>. Each of the first four steps can raise,
  and the function's end is reached with \<^verbatim>\<open>None\<close> when no pair is returned.
\<close>

definition read_handoff :: "stdlib \<Rightarrow> world \<Rightarrow> (json \<times> json) option outcome" where
  "read_handoff L w =
     (case tmp_file w of
        None \<Rightarrow> Returned None w
      | Some Dir \<Rightarrow> Raised OSError w
      | Some (File c) \<Rightarrow>
          (case json_loads L c of
             None \<Rightarrow> Raised JSONDecodeError w
           | Some coords \<Rightarrow>
               (case py_get coords ''latitude'' of
                  Inl e \<Rightarrow> Raised e w
                | Inr lat \<Rightarrow>
                    (case py_get coords ''longitude'' of
                       Inl e \<Rightarrow> Raised e w
                     | Inr lon \<Rightarrow>
                         (case remove_temp w of
                            Inl e \<Rightarrow> Raised e w
                          | Inr w' \<Rightarrow>
                              if lat \<noteq> JNull \<and> lon \<noteq> JNull
                              then Returned (Some (lat, lon)) w'
                              else Returned None w')))))"

text \<open>Lines 139 to 153: the blocking wait, then the read.\<close>

definition serve_and_read :: "stdlib \<Rightarrow> request list \<Rightarrow> world \<Rightarrow> (json \<times> json) option outcome" where
  "serve_and_read L rqs w =
     (case serve_forever L rqs w of
        Returned u w' \<Rightarrow> read_handoff L w'
      | Raised e w' \<Rightarrow> Raised e w'
      | Blocked w' \<Rightarrow> Blocked w')"

text \<open>\<^verbatim>\<open>httpd.server_close()\<close>.\<close>

definition server_close :: "world \<Rightarrow> world" where
  "server_close w = w\<lparr>socket_bound := False\<rparr>"

text \<open>
  How the \<^verbatim>\<open>try\<close> statement ends once the server exists: \<^verbatim>\<open>except Exception\<close> prints
  and returns \<^verbatim>\<open>None\<close>, and the \<^verbatim>\<open>finally\<close> clause closes the socket on both exits.
\<close>

fun except_finally :: "(json \<times> json) option outcome \<Rightarrow> (json \<times> json) option outcome" where
  "except_finally (Returned v w) = Returned v (server_close w)"
| "except_finally (Raised e w) = Returned None (server_close w)"
| "except_finally (Blocked w) = Blocked w"

text \<open>
  \<^verbatim>\<open>get_gps_location\<close>. The cleanup of an old record stands before the \<^verbatim>\<open>try\<close>, so what
  it raises leaves the function. A constructor that raises is caught with \<^verbatim>\<open>httpd\<close>
  still \<^verbatim>\<open>None\<close>, so the \<^verbatim>\<open>finally\<close> clause has nothing to close.
\<close>

definition get_gps_location :: "stdlib \<Rightarrow> request list \<Rightarrow> world \<Rightarrow> (json \<times> json) option outcome" where
  "get_gps_location L rqs w =
     (case (if tmp_file w \<noteq> None then remove_temp w else Inr w) of
        Inl e \<Rightarrow> Raised e w
      | Inr w0 \<Rightarrow>
          (case new_server w0 of
             Inl e \<Rightarrow> Returned None w0
           | Inr w1 \<Rightarrow> except_finally (serve_and_read L rqs w1)))"

section \<open>weather.py\<close>

subsection \<open>The API key and the request parameters\<close>

text \<open>\<^verbatim>\<open>_get_api_key\<close>: the explicit key if it is a non-empty string, else the environment's.\<close>

definition get_api_key :: "(string \<rightharpoonup> string) \<Rightarrow> string option \<Rightarrow> string option" where
  "get_api_key environ explicit_key =
     (case explicit_key of
        Some k \<Rightarrow> if k \<noteq> [] then Some k else environ ''OPENWEATHER_API_KEY''
      | None \<Rightarrow> environ ''OPENWEATHER_API_KEY'')"

text \<open>\<^verbatim>\<open>str.strip()\<close> on a string of ASCII characters.\<close>

definition is_space :: "char \<Rightarrow> bool" where
  "is_space c = (c \<in> set [CHR '' '', CHR 0x09, CHR 0x0A, CHR 0x0B, CHR 0x0C, CHR 0x0D,
                            CHR 0x1C, CHR 0x1D, CHR 0x1E, CHR 0x1F])"

definition strip :: "string \<Rightarrow> string" where
  "strip s = rev (dropWhile is_space (rev (dropWhile is_space s)))"

text \<open>
  Lines 45 to 57 of \<^verbatim>\<open>fetch_weather_details\<close>: the error for an empty city, else the
  parameters of the two requests (the same for both). The argument \<^verbatim>\<open>api_key\<close> is not
  read: line 48 calls \<^verbatim>\<open>_get_api_key\<close> on a string literal.
\<close>

definition request_params ::
  "(string \<rightharpoonup> string) \<Rightarrow> string \<Rightarrow> string option \<Rightarrow> string + (string \<times> string option) list" where
  "request_params environ city api_key =
     (if city = [] then Inl ''Invalid city parameter.''
      else (let key = get_api_key environ (Some ''dc33ba7d8d00e9fb8038ff70fd673c97'')
            in Inr [(''q'', Some (strip city)), (''appid'', key), (''units'', Some ''metric'')]))"

subsection \<open>The rain probability\<close>






fun digits :: "nat \<Rightarrow> string" where
  "digits n =
     (if n < 10 then [''0123456789'' ! n]
      else digits (n div 10) @ [''0123456789'' ! (n mod 10)])"



section \<open>A concrete library and concrete inputs\<close>

text \<open>\<^verbatim>\<open>int(s)\<close> on a header made of decimal digits only.\<close>

definition decimal :: "string \<Rightarrow> int option" where
  "decimal s =
     (if s \<noteq> [] \<and> list_all (\<lambda>c. c \<in> set ''0123456789'') s
      then Some (int (foldl (\<lambda>a c. 10 * a + (of_char c - 48)) 0 s))
      else None)"

text \<open>
  \<^verbatim>\<open>json.loads\<close> on the texts that occur in the runs below (the three request bodies
  and what \<^verbatim>\<open>json.dump\<close> writes for them); any other text is taken as one that it
  rejects.
\<close>

definition loads_table :: "string \<Rightarrow> json option" where
  \<open>loads_table s =
     (if s = ''{"latitude":12.34,"longitude":56.78}''
        \<or> s = ''{"latitude": 12.34, "longitude": 56.78}''
      then Some (JObj [(''latitude'', JNum (1234 / 100)), (''longitude'', JNum (5678 / 100))])
      else if s = ''{"latitude":12.34}''
      then Some (JObj [(''latitude'', JNum (1234 / 100))])
      else if s = ''{"latitude":"abc","longitude":"xyz"}''
        \<or> s = ''{"latitude": "abc", "longitude": "xyz"}''
      then Some (JObj [(''latitude'', JStr ''abc''), (''longitude'', JStr ''xyz'')])
      else None)\<close>

text \<open>\<^verbatim>\<open>json.dumps\<close> on the three documents that the runs below serialise.\<close>

definition dumps_table :: "json \<Rightarrow> string" where
  \<open>dumps_table j =
     (if j = JObj [(''latitude'', JNum (1234 / 100)), (''longitude'', JNum (5678 / 100))]
      then ''{"latitude": 12.34, "longitude": 56.78}''
      else if j = JObj [(''latitude'', JStr ''abc''), (''longitude'', JStr ''xyz'')]
      then ''{"latitude": "abc", "longitude": "xyz"}''
      else if j = JObj [(''status'', JStr ''success'')]
      then ''{"status": "success"}''
      else [])\<close>

text \<open>
  The library of the runs: CPython's \<^verbatim>\<open>shutdown\<close>, and a working directory in which the
  inherited \<^verbatim>\<open>do_HEAD\<close> finds no file.
\<close>

definition lib :: stdlib where
  "lib = \<lparr>int_of_str = decimal, json_loads = loads_table, json_dumps = dumps_table,
          shutdown = BaseServer_shutdown,
          inherited_do_HEAD = (\<lambda>rq. ErrorPage 404),
          HTML_PAGE = ''<!DOCTYPE html>''\<rparr>"

text \<open>A request whose Content-Length is the length of its body.\<close>

definition http_request :: "string \<Rightarrow> string \<Rightarrow> string \<Rightarrow> request" where
  "http_request m p b = \<lparr>command = m, path = p, content_length = Some (digits (length b)), rfile = b\<rparr>"

text \<open>Before the call: no record, the port free, no socket, nothing logged.\<close>

definition idle :: world where
  "idle = \<lparr>tmp_file = None, port_free = True, socket_bound = False,
           httpd = \<lparr>shutdown_request = False, is_shut_down = False\<rparr>, trace = []\<rparr>"

section \<open>The derivation of the rain probability in the spec's words\<close>




section \<open>Properties of the listener\<close>

lemmas gps_defs = get_gps_location_def new_server_def serve_and_read_def serve_forever_def
  handle_one_request_def do_POST_def do_GET_def read_fields_def rfile_read_def write_temp_def
  remove_temp_def read_handoff_def call_shutdown_def BaseServer_shutdown_def send_def
  success_response_def coords_json_def py_get_def dict_get_def server_close_def loop_exit_def

lemmas run_defs = lib_def idle_def http_request_def decimal_def loads_table_def dumps_table_def

subsection \<open>The handler on a valid callback\<close>

text \<open>
  A valid callback writes the record, logs the shutdown call and makes it; the success
  response follows only if the call returns.
\<close>

lemma do_POST_valid:
  assumes "path rq = ''/location_data''" and "read_fields L rq = Inr (lat, lon)"
    and "lat \<noteq> JNull" and "lon \<noteq> JNull" and "tmp_file w \<noteq> Some Dir"
  shows "do_POST L rq w =
    (case shutdown L (httpd w) of
       Done h \<Rightarrow>
         Returned () (w\<lparr>tmp_file := Some (File (json_dumps L (coords_json lat lon))), httpd := h,
            trace := trace w @ [Wrote (json_dumps L (coords_json lat lon)), ShutdownCall,
                                Sent (success_response L)]\<rparr>)
     | Hangs h \<Rightarrow>
         Blocked (w\<lparr>tmp_file := Some (File (json_dumps L (coords_json lat lon))), httpd := h,
            trace := trace w @ [Wrote (json_dumps L (coords_json lat lon)), ShutdownCall]\<rparr>))"
proof (cases "tmp_file w")
  case None
  with assms show ?thesis
    by (simp add: do_POST_def write_temp_def call_shutdown_def send_def split: call.splits)
next
  case (Some n)
  with assms obtain c where "n = File c" by (cases n) auto
  with Some assms show ?thesis
    by (simp add: do_POST_def write_temp_def call_shutdown_def send_def split: call.splits)
qed




lemma serve_loop_stops:
  "shutdown_request (httpd w) \<Longrightarrow> serve_loop L rqs w = Returned () (loop_exit w)"
  by (cases rqs) simp_all

subsection \<open>The serve loop on CPython's shutdown\<close>

text \<open>No handler raises into the serve loop.\<close>

lemma handle_not_Raised: "handle_one_request L rq w \<noteq> Raised e w'"
  by (auto simp: handle_one_request_def do_GET_def do_POST_def call_shutdown_def Let_def
      split: sum.splits prod.splits call.splits)

text \<open>
  Inside the serve loop the event is unset, so a handler that returns has not called
  \<^verbatim>\<open>shutdown\<close>: it leaves the server object as it was.
\<close>

lemma handle_cpython_httpd:
  "\<not> is_shut_down (httpd w) \<Longrightarrow> handle_one_request (cpython L) rq w = Returned u w'
     \<Longrightarrow> httpd w' = httpd w"
  by (auto simp: handle_one_request_def do_GET_def do_POST_def call_shutdown_def Let_def send_def
      cpython_def BaseServer_shutdown_def write_temp_def
      split: sum.splits prod.splits call.splits if_splits option.splits node.splits)

lemma serve_loop_cpython:
  "\<not> shutdown_request (httpd w) \<Longrightarrow> \<not> is_shut_down (httpd w)
     \<Longrightarrow> serve_loop (cpython L) rqs w \<noteq> Returned u w'"
proof (induction rqs arbitrary: w)
  case Nil
  then show ?case by simp
next
  case (Cons rq rqs)
  show ?case
  proof (cases "handle_one_request (cpython L) rq w")
    case (Returned x w1)
    with Cons.prems handle_cpython_httpd [of w L rq x w1] have "httpd w1 = httpd w" by simp
    with Cons.IH [of w1] Cons.prems Returned show ?thesis by simp
  next
    case (Raised e w1)
    with handle_not_Raised show ?thesis by blast
  next
    case (Blocked w1)
    with Cons.prems show ?thesis by simp
  qed
qed

text \<open>
  On CPython's \<^verbatim>\<open>shutdown\<close> the blocking wait never returns, whatever requests arrive:
  it waits for a connection for ever, or hangs inside the handler's shutdown call.
\<close>

lemma serve_forever_cpython_never_returns:
  "\<not> shutdown_request (httpd w) \<Longrightarrow> serve_forever (cpython L) rqs w \<noteq> Returned u w'"
  using serve_loop_cpython [of "w\<lparr>httpd := httpd w\<lparr>is_shut_down := False\<rparr>\<rparr>" L rqs u w']
  by (simp add: serve_forever_def)

text \<open>Hence \<^verbatim>\<open>get_gps_location\<close> on CPython never returns a pair.\<close>

lemma get_gps_location_cpython_no_pair:
  "get_gps_location (cpython L) rqs w \<noteq> Returned (Some p) w'"
proof -
  have "serve_and_read (cpython L) rqs x \<noteq> Returned (Some p) y"
    if "\<not> shutdown_request (httpd x)" for x y
    using serve_forever_cpython_never_returns [OF that, of L rqs]
    by (cases "serve_forever (cpython L) rqs x") (auto simp: serve_and_read_def)
  then have "except_finally (serve_and_read (cpython L) rqs x) \<noteq> Returned (Some p) y"
    if "\<not> shutdown_request (httpd x)" for x y
    using that by (cases "serve_and_read (cpython L) rqs x") auto
  then show ?thesis
    by (auto simp: get_gps_location_def new_server_def split: sum.splits if_splits)
qed

subsection \<open>The round trip when the shutdown call returns\<close>

text \<open>
  With a stop signal that returns at once, and a \<^verbatim>\<open>json\<close> module that reads back what it
  wrote, a valid callback is answered with the success response, the call returns the
  pair, and no record and no socket are left.
\<close>

lemma round_trip_when_shutdown_returns:
  assumes "shutdown L = flag_only_shutdown"
    and "command rq = ''POST''" and "path rq = ''/location_data''"
    and "read_fields L rq = Inr (lat, lon)" and "lat \<noteq> JNull" and "lon \<noteq> JNull"
    and "json_loads L (json_dumps L (coords_json lat lon)) = Some (coords_json lat lon)"
    and "port_free w" and "tmp_file w \<noteq> Some Dir"
  shows "\<exists>w'. get_gps_location L (rq # rqs) w = Returned (Some (lat, lon)) w'
           \<and> tmp_file w' = None \<and> socket_bound w' = False
           \<and> Sent (success_response L) \<in> set (trace w')"
proof -
  let ?c = "json_dumps L (coords_json lat lon)"
  have post: "tmp_file x = None \<Longrightarrow> handle_one_request L rq x =
      Returned () (x\<lparr>tmp_file := Some (File ?c), httpd := (httpd x)\<lparr>shutdown_request := True\<rparr>,
         trace := trace x @ [Wrote ?c, ShutdownCall, Sent (success_response L)]\<rparr>)" for x
    using assms(1-6) do_POST_valid [of rq L lat lon x]
    by (simp add: handle_one_request_def flag_only_shutdown_def)
  have run: "tmp_file x = None \<Longrightarrow> port_free x \<Longrightarrow>
     \<exists>w'. (case new_server x of Inl e \<Rightarrow> Returned None x
            | Inr w1 \<Rightarrow> except_finally (serve_and_read L (rq # rqs) w1)) = Returned (Some (lat, lon)) w'
           \<and> tmp_file w' = None \<and> socket_bound w' = False
           \<and> Sent (success_response L) \<in> set (trace w')" for x
    using assms(5-7)
    by (simp add: new_server_def serve_and_read_def serve_forever_def post serve_loop_stops
        loop_exit_def read_handoff_def coords_json_def py_get_def dict_get_def remove_temp_def
        server_close_def)
  show ?thesis
  proof (cases "tmp_file w")
    case None
    with run [of w] assms(8) show ?thesis by (simp add: get_gps_location_def)
  next
    case (Some n)
    with assms(9) obtain c where "n = File c" by (cases n) auto
    with Some run [of "w\<lparr>tmp_file := None, trace := trace w @ [Removed]\<rparr>"] assms(8)
    show ?thesis by (simp add: get_gps_location_def remove_temp_def)
  qed
qed

subsection \<open>The handler on an invalid callback\<close>

text \<open>
  A callback whose body raises, or lacks a field, is answered without a body, and only
  the log changes: no record is written and the server object is untouched. The status
  is 500 when the \<^verbatim>\<open>try\<close> block raised and 404 when a field was \<^verbatim>\<open>None\<close>.
\<close>

lemma invalid_post_answer:
  assumes "command rq = ''POST''" and "path rq = ''/location_data''"
    and "\<forall>lat lon. read_fields L rq = Inr (lat, lon) \<longrightarrow> lat = JNull \<or> lon = JNull"
  shows "handle_one_request L rq w =
     Returned () (w\<lparr>trace := trace w @
        [Sent (Response (case read_fields L rq of Inl e \<Rightarrow> 500 | Inr p \<Rightarrow> 404) [] [])]\<rparr>)"
  using assms
  by (auto simp: handle_one_request_def do_POST_def send_def split: sum.splits)

subsection \<open>The read after the wait, and the exits of get\_gps\_location\<close>

text \<open>
  The read leaves no record whenever it returns, with or without a pair; whenever it
  raises, nothing has changed, so what was at the record's path is still there.
\<close>

lemma read_handoff_return_removes:
  "read_handoff L w = Returned v w' \<Longrightarrow> tmp_file w' = None"
  by (auto simp: read_handoff_def remove_temp_def
      split: option.splits node.splits sum.splits if_splits)

lemma read_handoff_raise_keeps_record:
  "read_handoff L w = Raised e w' \<Longrightarrow> w' = w \<and> tmp_file w \<noteq> None"
  by (auto simp: read_handoff_def remove_temp_def
      split: option.splits node.splits sum.splits if_splits)

text \<open>
  Nothing that the \<^verbatim>\<open>try\<close> statement raises leaves \<^verbatim>\<open>get_gps_location\<close>: the only
  exception that reaches the caller is the one of the cleanup before it.
\<close>

lemma get_gps_location_raises_only_in_cleanup:
  assumes "get_gps_location L rqs w = Raised e w'"
  shows "tmp_file w = Some Dir \<and> e = OSError \<and> w' = w"
proof -
  have "except_finally r \<noteq> Raised e w'" for r :: "(json \<times> json) option outcome"
    by (cases r) simp_all
  with assms show ?thesis
    by (auto simp: get_gps_location_def remove_temp_def
        split: sum.splits if_splits option.splits node.splits)
qed

subsection \<open>A valid callback on CPython\<close>

text \<open>
  On CPython's \<^verbatim>\<open>shutdown\<close>, a first request that is a valid callback leaves
  \<^verbatim>\<open>get_gps_location\<close> hanging in the handler: the record is written, the shutdown call
  is the last thing logged, no response has been sent, and the socket stays open.
\<close>

lemma valid_callback_hangs:
  assumes "command rq = ''POST''" and "path rq = ''/location_data''"
    and "read_fields (cpython L) rq = Inr (lat, lon)" and "lat \<noteq> JNull" and "lon \<noteq> JNull"
    and "port_free w" and "tmp_file w \<noteq> Some Dir"
  shows "get_gps_location (cpython L) (rq # rqs) w =
     Blocked (w\<lparr>tmp_file := Some (File (json_dumps L (coords_json lat lon))),
                socket_bound := True,
                httpd := \<lparr>shutdown_request = True, is_shut_down = False\<rparr>,
                trace := trace w @ (if tmp_file w = None then [] else [Removed])
                           @ [Wrote (json_dumps L (coords_json lat lon)), ShutdownCall]\<rparr>)"
proof -
  let ?c = "json_dumps L (coords_json lat lon)"
  have post: "tmp_file x = None \<Longrightarrow> \<not> is_shut_down (httpd x) \<Longrightarrow>
      handle_one_request (cpython L) rq x =
        Blocked (x\<lparr>tmp_file := Some (File ?c), httpd := (httpd x)\<lparr>shutdown_request := True\<rparr>,
           trace := trace x @ [Wrote ?c, ShutdownCall]\<rparr>)" for x
    using assms(1-5) do_POST_valid [of rq "cpython L" lat lon x]
    by (simp add: handle_one_request_def cpython_def BaseServer_shutdown_def)
  have run: "tmp_file x = None \<Longrightarrow> port_free x \<Longrightarrow>
     (case new_server x of Inl e \<Rightarrow> Returned None x
      | Inr w1 \<Rightarrow> except_finally (serve_and_read (cpython L) (rq # rqs) w1)) =
       Blocked (x\<lparr>tmp_file := Some (File ?c), socket_bound := True,
                  httpd := \<lparr>shutdown_request = True, is_shut_down = False\<rparr>,
                  trace := trace x @ [Wrote ?c, ShutdownCall]\<rparr>)" for x
    by (simp add: new_server_def serve_and_read_def serve_forever_def post)
  show ?thesis
  proof (cases "tmp_file w")
    case None
    with run [of w] assms(6) show ?thesis by (simp add: get_gps_location_def)
  next
    case (Some n)
    with assms(7) obtain c where "n = File c" by (cases n) auto
    with Some run [of "w\<lparr>tmp_file := None, trace := trace w @ [Removed]\<rparr>"] assms(6)
    show ?thesis by (simp add: get_gps_location_def remove_temp_def)
  qed
qed

section \<open>The claims about the listener\<close>

subsection \<open>C1: the round trip through the handoff channel\<close>

text \<open>
  C1. The claim: a POST to \<^verbatim>\<open>/location_data\<close> with the body
  \<^verbatim>\<open>{"latitude":12.34,"longitude":56.78}\<close> is answered 200 with \<^verbatim>\<open>{"status":"success"}\<close>,
  \<^verbatim>\<open>get_gps_location\<close> then returns (12.34, 56.78), and no Handoff Record remains.
  What the code does on that request: the handler writes the record and calls
  \<^verbatim>\<open>self.server.shutdown()\<close> in the thread that runs \<^verbatim>\<open>serve_forever\<close>; the call waits
  for an event that only the end of \<^verbatim>\<open>serve_forever\<close> sets, so it never returns. No
  response is sent, \<^verbatim>\<open>get_gps_location\<close> does not return, and the record stays.
\<close>

theorem valid_callback_hangs_in_shutdown:
  \<open>get_gps_location lib
      [http_request ''POST'' ''/location_data'' ''{"latitude":12.34,"longitude":56.78}''] idle
   = Blocked \<lparr>tmp_file = Some (File ''{"latitude": 12.34, "longitude": 56.78}''),
        port_free = True, socket_bound = True,
        httpd = \<lparr>shutdown_request = True, is_shut_down = False\<rparr>,
        trace = [Wrote ''{"latitude": 12.34, "longitude": 56.78}'', ShutdownCall]\<rparr>\<close>
  by (simp add: gps_defs run_defs)

subsection \<open>C2: the order of write, response and shutdown\<close>




subsection \<open>C3: a callback that fails validation\<close>

text \<open>
  C3. The claim: a POST to \<^verbatim>\<open>/location_data\<close> whose body fails parsing or validation,
  such as \<^verbatim>\<open>{"latitude":12.34}\<close>, is answered 500 with no body, does not signal
  shutdown and creates no Handoff Record. On the code the body \<^verbatim>\<open>{"latitude":12.34}\<close>
  raises nothing: the \<^verbatim>\<open>if\<close> on the two fields fails, the \<^verbatim>\<open>try\<close> block ends without a
  \<^verbatim>\<open>return\<close>, and the request reaches the 404 at the end of \<^verbatim>\<open>do_POST\<close>. The rest of the
  claim holds there: nothing but the log changes.
\<close>

theorem missing_longitude_answered_404:
  \<open>handle_one_request lib
      (http_request ''POST'' ''/location_data'' ''{"latitude":12.34}'') idle
   = Returned () (idle\<lparr>trace := [Sent (Response 404 [] [])]\<rparr>)\<close>
  by (simp add: gps_defs run_defs)

subsection \<open>C4: a failed bind\<close>

text \<open>
  C4, as stated: a failed bind propagates out of \<^verbatim>\<open>get_gps_location\<close> to the caller.
  On the code the constructor stands inside the \<^verbatim>\<open>try\<close> block, so its \<^verbatim>\<open>OSError\<close> is
  caught by \<^verbatim>\<open>except Exception\<close>: the call returns \<^verbatim>\<open>None\<close> and raises nothing.
\<close>

theorem bind_failure_not_propagated:
  "get_gps_location lib [] (idle\<lparr>port_free := False\<rparr>)
   = Returned None (idle\<lparr>port_free := False\<rparr>)"
  by (simp add: get_gps_location_def new_server_def idle_def)

text \<open>
  C4, amended: if binding the listening socket fails, the failure is caught inside
  \<^verbatim>\<open>get_gps_location\<close>, which returns \<^verbatim>\<open>None\<close> to the caller at once, whatever requests
  would have arrived: no retry, no alternate port, no socket, and no Handoff Record (an
  old one has been removed by the cleanup, and none is created).
\<close>

theorem bind_failure_returns_None:
  assumes "\<not> port_free w" and "tmp_file w \<noteq> Some Dir"
  shows "get_gps_location L rqs w =
     Returned None (if tmp_file w = None then w
                    else w\<lparr>tmp_file := None, trace := trace w @ [Removed]\<rparr>)"
proof (cases "tmp_file w")
  case None
  with assms show ?thesis by (simp add: get_gps_location_def new_server_def)
next
  case (Some n)
  with assms obtain c where "n = File c" by (cases n) auto
  with Some assms show ?thesis by (simp add: get_gps_location_def new_server_def remove_temp_def)
qed

text \<open>The amended C4 at a run with a stale record, a taken port and a waiting callback.\<close>

theorem bind_failure_returns_None_witness:
  \<open>\<not> port_free (idle\<lparr>tmp_file := Some (File ''stale''), port_free := False\<rparr>)
   \<and> tmp_file (idle\<lparr>tmp_file := Some (File ''stale''), port_free := False\<rparr>) \<noteq> Some Dir
   \<and> get_gps_location lib
        [http_request ''POST'' ''/location_data'' ''{"latitude":12.34,"longitude":56.78}'']
        (idle\<lparr>tmp_file := Some (File ''stale''), port_free := False\<rparr>)
      = Returned None (idle\<lparr>port_free := False, trace := [Removed]\<rparr>)\<close>
  using bind_failure_returns_None
    [of "idle\<lparr>tmp_file := Some (File ''stale''), port_free := False\<rparr>" lib
      \<open>[http_request ''POST'' ''/location_data'' ''{"latitude":12.34,"longitude":56.78}'']\<close>]
  by (simp add: idle_def)

subsection \<open>C5: the record after the read\<close>

text \<open>
  C5. The claim: at the read after shutdown the Handoff Record is always removed,
  valid or not; on malformed content it is deleted and \<^verbatim>\<open>None\<close> is returned. On the
  code \<^verbatim>\<open>os.remove\<close> stands after \<^verbatim>\<open>json.load\<close> and the two \<^verbatim>\<open>get\<close> calls: a record whose
  text \<^verbatim>\<open>json.load\<close> rejects raises before the removal, \<^verbatim>\<open>except Exception\<close> returns
  \<^verbatim>\<open>None\<close>, and the record is still there.
\<close>

theorem malformed_record_left_behind:
  \<open>except_finally
     (read_handoff lib (idle\<lparr>tmp_file := Some (File ''{"latitude": 12.3''), socket_bound := True\<rparr>))
   = Returned None (idle\<lparr>tmp_file := Some (File ''{"latitude": 12.3'')\<rparr>)\<close>
  by (simp add: gps_defs run_defs)

subsection \<open>C8: other methods and other paths\<close>




subsection \<open>C9: values that are not numbers\<close>

text \<open>
  C9. The claim: the callback checks only that both fields are present and not null, so
  the body \<^verbatim>\<open>{"latitude":"abc","longitude":"xyz"}\<close> is accepted with 200, written to
  the Handoff Record, and returned by \<^verbatim>\<open>get_gps_location\<close> as a pair of non-numeric
  values. On the code the body does pass the check and the two strings are written to the
  record; then the handler hangs in \<^verbatim>\<open>shutdown()\<close> as for any valid callback, so no 200
  is sent and \<^verbatim>\<open>get_gps_location\<close> returns nothing.
\<close>

theorem non_numeric_callback_hangs_in_shutdown:
  \<open>get_gps_location lib
      [http_request ''POST'' ''/location_data'' ''{"latitude":"abc","longitude":"xyz"}''] idle
   = Blocked \<lparr>tmp_file = Some (File ''{"latitude": "abc", "longitude": "xyz"}''),
        port_free = True, socket_bound = True,
        httpd = \<lparr>shutdown_request = True, is_shut_down = False\<rparr>,
        trace = [Wrote ''{"latitude": "abc", "longitude": "xyz"}'', ShutdownCall]\<rparr>\<close>
  by (simp add: gps_defs run_defs)

subsection \<open>C10: exceptions of get\_gps\_location\<close>

text \<open>
  C10. The claim: \<^verbatim>\<open>get_gps_location\<close> never propagates an exception; every failure
  after entry, file errors included, becomes a \<^verbatim>\<open>None\<close> return. On the code the cleanup
  of an old record (\<^verbatim>\<open>os.path.exists\<close>, then \<^verbatim>\<open>os.remove\<close>) stands before the \<^verbatim>\<open>try\<close>
  statement: when something exists at the record's path that cannot be removed, the
  \<^verbatim>\<open>OSError\<close> of \<^verbatim>\<open>os.remove\<close> leaves the function.
\<close>

theorem cleanup_failure_propagates:
  "get_gps_location lib [] (idle\<lparr>tmp_file := Some Dir\<rparr>)
   = Raised OSError (idle\<lparr>tmp_file := Some Dir\<rparr>)"
  by (simp add: gps_defs run_defs)

section \<open>The claims about weather.py\<close>

subsection \<open>C6: the rain probability\<close>





subsection \<open>C7: the API key\<close>

text \<open>The parameters of the requests depend neither on \<^verbatim>\<open>api_key\<close> nor on the environment.\<close>

lemma request_params_ignores_api_key:
  "request_params environ city api_key = request_params environ' city None"
  by (simp add: request_params_def get_api_key_def)

text \<open>
  C7. The claim: with \<^verbatim>\<open>--api-key\<close> given, \<^verbatim>\<open>fetch_weather_details\<close> uses that key for its
  requests, else the key of the environment, never a literal of the code. On the code
  line 48 passes a string literal to \<^verbatim>\<open>_get_api_key\<close> in place of the argument
  \<^verbatim>\<open>api_key\<close>: with the key CLIKEY on the command line and ENVKEY in the environment,
  the requests carry the literal.
\<close>

theorem explicit_api_key_ignored:
  "request_params [''OPENWEATHER_API_KEY'' \<mapsto> ''ENVKEY''] ''London'' (Some ''CLIKEY'')
   = Inr [(''q'', Some ''London''),
          (''appid'', Some ''dc33ba7d8d00e9fb8038ff70fd673c97''),
          (''units'', Some ''metric'')]"
  by (simp add: request_params_def get_api_key_def strip_def is_space_def)

end
